theory Spec2Isabelle
  imports Main
begin

section \<open>JavaScript values\<close>

text \<open>
  The values that reach the query builders. An object is the list of its own enumerable
  entries, in the order \<^verbatim>\<open>Object.entries\<close> yields them. \<open>VNum n\<close> is the number with
  the integer value \<open>n\<close> (of magnitude below \<open>10^21\<close>, which JavaScript prints in plain
  decimal). \<open>VDate iso str\<close> is a valid Date together with what \<^verbatim>\<open>toISOString()\<close> and
  \<^verbatim>\<open>toString()\<close> return for it.
\<close>

datatype jsval =
    VUndefined
  | VNull
  | VBool bool
  | VNum int
  | VStr string
  | VDate string string
  | VArr "jsval list"
  | VObj "(string \<times> jsval) list"

type_synonym js_object = "(string \<times> jsval) list"

datatype error =
    InvalidArgument
  | MalformedFilter
  | UnsupportedValueType
  | UnsupportedOperator string
  | NotFound
  | InvalidCursor
  | BackendContractViolation
  | BackendFailure string
  | TypeError
  | Unmodelled

text \<open>
  The constructors of \<open>error\<close> name the places where the source throws:
  \<open>InvalidArgument\<close> for a rejected \<^verbatim>\<open>take\<close>, payload or id; \<open>MalformedFilter\<close> for
  \<^verbatim>\<open>Invalid condition for field\<close> and \<^verbatim>\<open>Value for operator ... is undefined\<close>;
  \<open>UnsupportedValueType\<close> for \<^verbatim>\<open>Unsupported value type\<close>; \<open>UnsupportedOperator\<close> for
  \<^verbatim>\<open>Unsupported operator\<close>; \<open>NotFound\<close> for a missing item; \<open>InvalidCursor\<close> for the
  SyntaxError of \<^verbatim>\<open>JSON.parse\<close>; \<open>BackendContractViolation\<close> for a result set that
  is not a list; \<open>BackendFailure\<close> for a failed store call; \<open>TypeError\<close> for the
  TypeError the JavaScript runtime raises by itself. \<open>Unmodelled\<close> is no error of the
  source: it marks an input whose result depends on the JavaScript engine.
\<close>

subsection \<open>Printing\<close>

definition digit_char :: "nat \<Rightarrow> char" where
  "digit_char d = ''0123456789'' ! (d mod 10)"

fun string_of_nat :: "nat \<Rightarrow> string" where
  "string_of_nat n =
     (if n < 10 then [digit_char n] else string_of_nat (n div 10) @ [digit_char (n mod 10)])"

declare string_of_nat.simps [simp del]

definition string_of_int :: "int \<Rightarrow> string" where
  "string_of_int i = (if i < 0 then CHR ''-'' # string_of_nat (nat (- i)) else string_of_nat (nat i))"

text \<open>\<^verbatim>\<open>Array.prototype.join\<close> on a list of strings.\<close>

fun join :: "string \<Rightarrow> string list \<Rightarrow> string" where
  "join sep [] = []"
| "join sep [x] = x"
| "join sep (x # y # ys) = x @ sep @ join sep (y # ys)"

text \<open>
  The string conversion of a template literal \<^verbatim>\<open>`${v}`\<close>. An array prints its elements
  joined by commas, with \<^verbatim>\<open>null\<close> and \<^verbatim>\<open>undefined\<close> elements empty.
\<close>

fun js_to_string :: "jsval \<Rightarrow> string" where
  "js_to_string VUndefined = ''undefined''"
| "js_to_string VNull = ''null''"
| "js_to_string (VBool b) = (if b then ''true'' else ''false'')"
| "js_to_string (VNum n) = string_of_int n"
| "js_to_string (VStr s) = s"
| "js_to_string (VDate isoString dateString) = dateString"
| "js_to_string (VArr xs) =
     join '','' (map (\<lambda>x. if x = VNull \<or> x = VUndefined then [] else js_to_string x) xs)"
| "js_to_string (VObj kvs) = ''[object Object]''"

subsection \<open>Predicates of \<^verbatim>\<open>src/utils/index.ts\<close>\<close>

definition isNonEmptyString :: "string \<Rightarrow> bool" where
  "isNonEmptyString s = (1 \<le> length s)"

definition isBoolean :: "jsval \<Rightarrow> bool" where
  "isBoolean v = (case v of VBool _ \<Rightarrow> True | _ \<Rightarrow> False)"

definition isNumber :: "jsval \<Rightarrow> bool" where
  "isNumber v = (case v of VNum _ \<Rightarrow> True | _ \<Rightarrow> False)"

definition isObject :: "jsval \<Rightarrow> bool" where
  "isObject v = (case v of VObj _ \<Rightarrow> True | _ \<Rightarrow> False)"

definition objectIsEmpty :: "js_object \<Rightarrow> bool" where
  "objectIsEmpty kvs = (length (map fst kvs) = 0)"

definition isEmptyArray :: "'a list \<Rightarrow> bool" where
  "isEmptyArray xs = (length xs \<le> 0)"

subsection \<open>Truthiness, own entries, property reads and writes\<close>

definition truthy :: "jsval \<Rightarrow> bool" where
  "truthy v = (case v of
       VUndefined \<Rightarrow> False
     | VNull \<Rightarrow> False
     | VBool b \<Rightarrow> b
     | VNum n \<Rightarrow> n \<noteq> 0
     | VStr s \<Rightarrow> s \<noteq> []
     | _ \<Rightarrow> True)"

fun indexed :: "nat \<Rightarrow> 'a list \<Rightarrow> (string \<times> 'a) list" where
  "indexed i [] = []"
| "indexed i (x # xs) = (string_of_nat i, x) # indexed (Suc i) xs"

text \<open>
  \<^verbatim>\<open>Object.entries(v)\<close>: the entries of an object, the indexed elements of an array or
  the indexed characters of a string, nothing for a number, a boolean or a Date, and a
  TypeError for \<^verbatim>\<open>null\<close> and \<^verbatim>\<open>undefined\<close>.
\<close>

definition entries :: "jsval \<Rightarrow> error + (string \<times> jsval) list" where
  "entries v = (case v of
       VObj kvs \<Rightarrow> Inr kvs
     | VArr xs \<Rightarrow> Inr (indexed 0 xs)
     | VStr s \<Rightarrow> Inr (indexed 0 (map (\<lambda>c. VStr [c]) s))
     | VUndefined \<Rightarrow> Inl TypeError
     | VNull \<Rightarrow> Inl TypeError
     | _ \<Rightarrow> Inr [])"

text \<open>Reading the own property \<open>k\<close> of an object: \<^verbatim>\<open>undefined\<close> when it is absent.\<close>

definition get :: "js_object \<Rightarrow> string \<Rightarrow> jsval" where
  "get kvs k = (case map_of kvs k of None \<Rightarrow> VUndefined | Some v \<Rightarrow> v)"

text \<open>
  Writing a property: an existing key keeps its place and takes the new value, a new key
  goes to the end (JavaScript orders keys that are array indices before the others; such
  keys do not occur here). Object spread and computed keys in an object literal write
  this way.
\<close>

fun put :: "string \<Rightarrow> 'v \<Rightarrow> (string \<times> 'v) list \<Rightarrow> (string \<times> 'v) list" where
  "put k v [] = [(k, v)]"
| "put k v ((k', v') # kvs) = (if k = k' then (k, v) # kvs else (k', v') # put k v kvs)"

definition spread :: "(string \<times> 'v) list \<Rightarrow> (string \<times> 'v) list \<Rightarrow> (string \<times> 'v) list" where
  "spread acc kvs = foldl (\<lambda>a (k, v). put k v a) acc kvs"

section \<open>The SQL-like backend: query builder\<close>

text \<open>
  \<^verbatim>\<open>constructFieldSelection\<close>. An optional argument is an \<open>option\<close>: \<open>None\<close> is
  \<^verbatim>\<open>undefined\<close> or \<^verbatim>\<open>null\<close>, the two values \<^verbatim>\<open>isNull\<close> and \<^verbatim>\<open>isUndefined\<close> test
  for.
\<close>

definition constructFieldSelection :: "js_object option \<Rightarrow> string" where
  "constructFieldSelection args =
     (case args of
        None \<Rightarrow> ''*''
      | Some sel \<Rightarrow>
          if objectIsEmpty sel then ''*''
          else let fieldsSelected = filter (\<lambda>key. get sel key = VBool True) (map fst sel)
               in if isEmptyArray fieldsSelected then ''*''
                  else join '', '' (map (\<lambda>key. ''c.'' @ key) fieldsSelected))"

text \<open>
  The literal of \<^verbatim>\<open>equals\<close>, \<^verbatim>\<open>not\<close>, the comparisons and the elements of
  \<^verbatim>\<open>in\<close>/\<^verbatim>\<open>notIn\<close>: bare for a boolean or a number, quoted otherwise.
\<close>

definition literal :: "jsval \<Rightarrow> string" where
  "literal v = (if isBoolean v \<or> isNumber v then js_to_string v
                else [CHR 0x27] @ js_to_string v @ [CHR 0x27])"

definition compare_with :: "string \<Rightarrow> string \<Rightarrow> jsval \<Rightarrow> string" where
  "compare_with field opSymbol v = ''c.'' @ field @ '' '' @ opSymbol @ '' '' @ literal v"

text \<open>
  The list of \<^verbatim>\<open>in\<close>/\<^verbatim>\<open>notIn\<close>, \<^verbatim>\<open>(value as [])?.map(...).join(', ')\<close>: the optional
  chain yields \<^verbatim>\<open>undefined\<close> for a \<^verbatim>\<open>null\<close> or \<^verbatim>\<open>undefined\<close> operand, and calling
  \<^verbatim>\<open>map\<close> on any other value that is not an array is a TypeError.
\<close>

definition literal_list :: "jsval \<Rightarrow> error + string" where
  "literal_list v = (case v of
       VArr xs \<Rightarrow> Inr (join '', '' (map literal xs))
     | VUndefined \<Rightarrow> Inr ''undefined''
     | VNull \<Rightarrow> Inr ''undefined''
     | _ \<Rightarrow> Inl TypeError)"

text \<open>
  \<^verbatim>\<open>createFilter\<close>. Its first test (\<^verbatim>\<open>args\<close> null, undefined or empty) never holds
  for the four-field argument object and is left out.
\<close>

definition createFilter :: "string \<Rightarrow> string \<Rightarrow> jsval \<Rightarrow> jsval \<Rightarrow> error + string" where
  "createFilter field filterKey mode v =
    (let s = js_to_string v in
     if filterKey = ''contains'' then
       (if mode = VStr ''INSENSITIVE''
        then Inr (''CONTAINS(LOWER(c.'' @ field @ ''), LOWER('' @ [CHR 0x27] @ s @ [CHR 0x27] @ ''))'')
        else Inr (''CONTAINS(c.'' @ field @ '', '' @ [CHR 0x27] @ s @ [CHR 0x27] @ '')''))
     else if filterKey = ''startsWith'' then
       (if mode = VStr ''INSENSITIVE''
        then Inr (''STARTSWITH(LOWER(c.'' @ field @ ''), LOWER('' @ [CHR 0x27] @ s @ [CHR 0x27] @ ''))'')
        else Inr (''STARTSWITH(c.'' @ field @ '', '' @ [CHR 0x27] @ s @ [CHR 0x27] @ '')''))
     else if filterKey = ''endsWith'' then
       (if mode = VStr ''INSENSITIVE''
        then Inr (''LOWER(c.'' @ field @ '') LIKE '' @ [CHR 0x27] @ ''%LOWER('' @ [CHR 0x27] @ s
                   @ [CHR 0x27] @ '')'' @ [CHR 0x27])
        else Inr (''c.'' @ field @ '' LIKE '' @ [CHR 0x27] @ ''%'' @ s @ [CHR 0x27]))
     else if filterKey = ''equals'' then Inr (compare_with field ''='' v)
     else if filterKey = ''not'' then Inr (compare_with field ''!='' v)
     else if filterKey = ''gt'' then Inr (compare_with field ''>'' v)
     else if filterKey = ''gte'' then Inr (compare_with field ''>='' v)
     else if filterKey = ''lt'' then Inr (compare_with field ''<'' v)
     else if filterKey = ''lte'' then Inr (compare_with field ''<='' v)
     else if filterKey = ''in'' then
       (case literal_list v of
          Inl e \<Rightarrow> Inl e
        | Inr l \<Rightarrow> Inr (''c.'' @ field @ '' IN ('' @ l @ '')''))
     else if filterKey = ''notIn'' then
       (case literal_list v of
          Inl e \<Rightarrow> Inl e
        | Inr l \<Rightarrow> Inr (''c.'' @ field @ '' NOT IN ('' @ l @ '')''))
     else Inr [])"

text \<open>Mapping a function that may throw over a list, left to right: the first error wins.\<close>

fun map_err :: "('a \<Rightarrow> error + 'b) \<Rightarrow> 'a list \<Rightarrow> error + 'b list" where
  "map_err f [] = Inr []"
| "map_err f (x # xs) =
     (case f x of
        Inl e \<Rightarrow> Inl e
      | Inr y \<Rightarrow> (case map_err f xs of Inl e \<Rightarrow> Inl e | Inr ys \<Rightarrow> Inr (y # ys)))"

text \<open>
  The fragments of one field of the where clause: the mode is read from the condition
  (\<^verbatim>\<open>SENSITIVE\<close> unless the value under \<^verbatim>\<open>mode\<close> is truthy), then every entry of the
  condition, \<^verbatim>\<open>mode\<close> included, goes through \<^verbatim>\<open>createFilter\<close>.
\<close>

definition filterQueriesForField :: "string \<times> jsval \<Rightarrow> error + string list" where
  "filterQueriesForField fc =
     (case fc of (field, filters) \<Rightarrow>
        (let m = (case filters of VObj kvs \<Rightarrow> get kvs ''mode'' | _ \<Rightarrow> VUndefined);
             mode = (if truthy m then m else VStr ''SENSITIVE'')
         in case entries filters of
              Inl e \<Rightarrow> Inl e
            | Inr es \<Rightarrow> map_err (\<lambda>(filterKey, v). createFilter field filterKey mode v) es))"

definition whereConditions :: "js_object \<Rightarrow> error + string list" where
  "whereConditions args =
     (case map_err filterQueriesForField args of
        Inl e \<Rightarrow> Inl e
      | Inr fss \<Rightarrow> Inr (filter isNonEmptyString (concat fss)))"

definition buildWhereClause :: "js_object option \<Rightarrow> error + string" where
  "buildWhereClause args =
     (case args of
        None \<Rightarrow> Inr []
      | Some w \<Rightarrow>
          if objectIsEmpty w then Inr []
          else (case whereConditions w of
                  Inl e \<Rightarrow> Inl e
                | Inr conditions \<Rightarrow>
                    if isEmptyArray conditions then Inr []
                    else Inr (join '' '' [''WHERE'', join '' AND '' conditions])))"

definition constructOrderByClause :: "js_object option \<Rightarrow> string" where
  "constructOrderByClause args =
     (case args of
        None \<Rightarrow> []
      | Some ob \<Rightarrow>
          if objectIsEmpty ob then []
          else ''ORDER BY '' @
               join '', '' (map (\<lambda>(field, direction). ''c.'' @ field @ '' '' @ js_to_string direction) ob))"

section \<open>Pagination cursor\<close>

text \<open>
  The key-value backend's cursor is \<^verbatim>\<open>JSON.stringify\<close> of the store's
  \<^verbatim>\<open>LastEvaluatedKey\<close>, read back with \<^verbatim>\<open>JSON.parse\<close>. The two functions belong to
  the JavaScript runtime; they are modelled here on the values a key of the store is made
  of: objects, arrays, strings, booleans and \<^verbatim>\<open>null\<close> (the store writes numbers as
  strings). Characters are code units below 256.
\<close>

datatype json =
    JNull
  | JBool bool
  | JStr string
  | JArr "json list"
  | JObj "(string \<times> json) list"

subsection \<open>\<^verbatim>\<open>JSON.stringify\<close>\<close>

definition hex_char :: "nat \<Rightarrow> char" where
  "hex_char d = ''0123456789abcdef'' ! (d mod 16)"

definition escape_char :: "char \<Rightarrow> string" where
  "escape_char c =
     (if c = CHR 0x22 then [CHR 0x5C, CHR 0x22]
      else if c = CHR 0x5C then [CHR 0x5C, CHR 0x5C]
      else if c = CHR 0x08 then [CHR 0x5C, CHR ''b'']
      else if c = CHR 0x0C then [CHR 0x5C, CHR ''f'']
      else if c = CHR 0x0A then [CHR 0x5C, CHR ''n'']
      else if c = CHR 0x0D then [CHR 0x5C, CHR ''r'']
      else if c = CHR 0x09 then [CHR 0x5C, CHR ''t'']
      else if (of_char c :: nat) < 32
        then [CHR 0x5C, CHR ''u'', CHR ''0'', CHR ''0'', hex_char (of_char c div 16), hex_char (of_char c mod 16)]
      else [c])"

definition quote :: "string \<Rightarrow> string" where
  "quote s = [CHR 0x22] @ concat (map escape_char s) @ [CHR 0x22]"

fun stringify :: "json \<Rightarrow> string"
and stringify_elements :: "json list \<Rightarrow> string"
and stringify_members :: "(string \<times> json) list \<Rightarrow> string" where
  "stringify JNull = ''null''"
| "stringify (JBool b) = (if b then ''true'' else ''false'')"
| "stringify (JStr s) = quote s"
| "stringify (JArr xs) = ''['' @ stringify_elements xs @ '']''"
| "stringify (JObj kvs) = ''{'' @ stringify_members kvs @ ''}''"
| "stringify_elements [] = []"
| "stringify_elements [x] = stringify x"
| "stringify_elements (x # y # ys) = stringify x @ '','' @ stringify_elements (y # ys)"
| "stringify_members [] = []"
| "stringify_members [(k, v)] = quote k @ '':'' @ stringify v"
| "stringify_members ((k, v) # kv # kvs) = quote k @ '':'' @ stringify v @ '','' @ stringify_members (kv # kvs)"

subsection \<open>\<^verbatim>\<open>JSON.parse\<close>\<close>

text \<open>
  The parser answers \<open>Inl InvalidCursor\<close> where \<^verbatim>\<open>JSON.parse\<close> throws a SyntaxError and
  \<open>Inl Unmodelled\<close> on text outside the modelled values: a number, an escape of a code
  unit above 255, and an object key made of digits only (which JavaScript would move to
  the front of the object). A repeated key keeps its first place and takes the last
  value. The recursion is bounded by the length of the text.
\<close>

definition is_ws :: "char \<Rightarrow> bool" where
  "is_ws c = (c = CHR 0x20 \<or> c = CHR 0x09 \<or> c = CHR 0x0A \<or> c = CHR 0x0D)"

definition skip_ws :: "string \<Rightarrow> string" where
  "skip_ws s = dropWhile is_ws s"

definition is_digit :: "char \<Rightarrow> bool" where
  "is_digit c = (48 \<le> (of_char c :: nat) \<and> (of_char c :: nat) \<le> 57)"

definition hex_val :: "char \<Rightarrow> nat option" where
  "hex_val c =
     (let n = (of_char c :: nat)
      in if 48 \<le> n \<and> n \<le> 57 then Some (n - 48)
         else if 97 \<le> n \<and> n \<le> 102 then Some (n - 87)
         else if 65 \<le> n \<and> n \<le> 70 then Some (n - 55)
         else None)"

definition unescape :: "char \<Rightarrow> char option" where
  "unescape e =
     (if e = CHR 0x22 then Some (CHR 0x22)
      else if e = CHR 0x5C then Some (CHR 0x5C)
      else if e = CHR ''/'' then Some (CHR ''/'')
      else if e = CHR ''b'' then Some (CHR 0x08)
      else if e = CHR ''f'' then Some (CHR 0x0C)
      else if e = CHR ''n'' then Some (CHR 0x0A)
      else if e = CHR ''r'' then Some (CHR 0x0D)
      else if e = CHR ''t'' then Some (CHR 0x09)
      else None)"

definition code_unit :: "char \<Rightarrow> char \<Rightarrow> char \<Rightarrow> char \<Rightarrow> error + char" where
  "code_unit a b c d =
     (case (hex_val a, hex_val b, hex_val c, hex_val d) of
        (Some h3, Some h2, Some h1, Some h0) \<Rightarrow>
          (let n = ((h3 * 16 + h2) * 16 + h1) * 16 + h0
           in if n < 256 then Inr (char_of n) else Inl Unmodelled)
      | _ \<Rightarrow> Inl InvalidCursor)"

text \<open>The characters of a string literal after its opening quote, up to the closing one.\<close>

definition cons_char :: "char \<Rightarrow> error + string \<times> string \<Rightarrow> error + string \<times> string" where
  "cons_char x res = (case res of Inl e \<Rightarrow> Inl e | Inr (s, r) \<Rightarrow> Inr (x # s, r))"

fun parse_chars :: "string \<Rightarrow> error + string \<times> string" where
  "parse_chars [] = Inl InvalidCursor"
| "parse_chars (c # cs) =
     (if c = CHR 0x22 then Inr ([], cs)
      else if c = CHR 0x5C then
        (case cs of
           [] \<Rightarrow> Inl InvalidCursor
         | e # r \<Rightarrow>
             if e = CHR ''u'' then
               (case r of
                  a # b # c' # d # r' \<Rightarrow>
                    (case code_unit a b c' d of
                       Inl err \<Rightarrow> Inl err
                     | Inr x \<Rightarrow> cons_char x (parse_chars r'))
                | _ \<Rightarrow> Inl InvalidCursor)
             else (case unescape e of
                     None \<Rightarrow> Inl InvalidCursor
                   | Some x \<Rightarrow> cons_char x (parse_chars r)))
      else if (of_char c :: nat) < 32 then Inl InvalidCursor
      else cons_char c (parse_chars cs))"

definition index_like :: "string \<Rightarrow> bool" where
  "index_like k = (k \<noteq> [] \<and> list_all is_digit k)"

fun parse_value :: "nat \<Rightarrow> string \<Rightarrow> error + json \<times> string"
and parse_elements :: "nat \<Rightarrow> json list \<Rightarrow> string \<Rightarrow> error + json \<times> string"
and parse_members :: "nat \<Rightarrow> (string \<times> json) list \<Rightarrow> string \<Rightarrow> error + json \<times> string" where
  "parse_value 0 s = Inl Unmodelled"
| "parse_value (Suc n) s =
     (case skip_ws s of
        [] \<Rightarrow> Inl InvalidCursor
      | c # cs \<Rightarrow>
          if c = CHR ''{'' then
            (case skip_ws cs of
               [] \<Rightarrow> Inl InvalidCursor
             | c' # r \<Rightarrow> if c' = CHR ''}'' then Inr (JObj [], r) else parse_members n [] cs)
          else if c = CHR ''['' then
            (case skip_ws cs of
               [] \<Rightarrow> Inl InvalidCursor
             | c' # r \<Rightarrow> if c' = CHR '']'' then Inr (JArr [], r) else parse_elements n [] cs)
          else if c = CHR 0x22 then
            (case parse_chars cs of Inl e \<Rightarrow> Inl e | Inr (str, r) \<Rightarrow> Inr (JStr str, r))
          else if take 4 (c # cs) = ''null'' then Inr (JNull, drop 4 (c # cs))
          else if take 4 (c # cs) = ''true'' then Inr (JBool True, drop 4 (c # cs))
          else if take 5 (c # cs) = ''false'' then Inr (JBool False, drop 5 (c # cs))
          else if c = CHR ''-'' \<or> is_digit c then Inl Unmodelled
          else Inl InvalidCursor)"
| "parse_elements 0 acc s = Inl Unmodelled"
| "parse_elements (Suc n) acc s =
     (case parse_value n s of
        Inl e \<Rightarrow> Inl e
      | Inr (v, r) \<Rightarrow>
          (case skip_ws r of
             [] \<Rightarrow> Inl InvalidCursor
           | c # r' \<Rightarrow>
               if c = CHR '','' then parse_elements n (acc @ [v]) r'
               else if c = CHR '']'' then Inr (JArr (acc @ [v]), r')
               else Inl InvalidCursor))"
| "parse_members 0 acc s = Inl Unmodelled"
| "parse_members (Suc n) acc s =
     (case skip_ws s of
        [] \<Rightarrow> Inl InvalidCursor
      | q # cs \<Rightarrow>
          if q \<noteq> CHR 0x22 then Inl InvalidCursor
          else (case parse_chars cs of
                  Inl e \<Rightarrow> Inl e
                | Inr (k, r1) \<Rightarrow>
                    (case skip_ws r1 of
                       [] \<Rightarrow> Inl InvalidCursor
                     | col # r2 \<Rightarrow>
                         if col \<noteq> CHR '':'' then Inl InvalidCursor
                         else (case parse_value n r2 of
                                 Inl e \<Rightarrow> Inl e
                               | Inr (v, r3) \<Rightarrow>
                                   if index_like k then Inl Unmodelled
                                   else (case skip_ws r3 of
                                           [] \<Rightarrow> Inl InvalidCursor
                                         | c # r4 \<Rightarrow>
                                             if c = CHR '','' then parse_members n (put k v acc) r4
                                             else if c = CHR ''}'' then Inr (JObj (put k v acc), r4)
                                             else Inl InvalidCursor)))))"

definition JSON_parse :: "string \<Rightarrow> error + json" where
  "JSON_parse s =
     (case parse_value (Suc (length s)) s of
        Inl e \<Rightarrow> Inl e
      | Inr (v, r) \<Rightarrow> if skip_ws r = [] then Inr v else Inl InvalidCursor)"


subsection \<open>The cursor codec of the key-value backend\<close>

text \<open>
  \<^verbatim>\<open>LastEvaluatedKey ? JSON.stringify(LastEvaluatedKey) : undefined\<close> and
  \<^verbatim>\<open>JSON.parse(nextCursor)\<close>. The native token is an object, so it is truthy whenever it
  is present.
\<close>

definition encode_cursor :: "(string \<times> json) list option \<Rightarrow> string option" where
  "encode_cursor token = (case token of None \<Rightarrow> None | Some t \<Rightarrow> Some (stringify (JObj t)))"

definition decode_cursor :: "string \<Rightarrow> error + json" where
  "decode_cursor cursor = JSON_parse cursor"

text \<open>
  A value as JavaScript holds it: the keys of every object are distinct, and none of them
  is made of digits only.
\<close>

fun plain :: "json \<Rightarrow> bool"
and plain_elements :: "json list \<Rightarrow> bool"
and plain_members :: "(string \<times> json) list \<Rightarrow> bool" where
  "plain JNull = True"
| "plain (JBool b) = True"
| "plain (JStr s) = True"
| "plain (JArr xs) = plain_elements xs"
| "plain (JObj kvs) = (distinct (map fst kvs) \<and> plain_members kvs)"
| "plain_elements [] = True"
| "plain_elements (x # xs) = (plain x \<and> plain_elements xs)"
| "plain_members [] = True"
| "plain_members ((k, v) # kvs) = (\<not> index_like k \<and> plain v \<and> plain_members kvs)"

section \<open>Request shapes\<close>

text \<open>
  A JavaScript number as \<^verbatim>\<open>take\<close> sees it: an integer, another number that is not an
  integer (a fraction or an infinity), or \<^verbatim>\<open>NaN\<close>.
\<close>

datatype js_number = Integer int | NotInteger | NaN

text \<open>\<^verbatim>\<open>z.number().int().min(1).safeParse(take).success\<close>\<close>

definition positive_integer :: "js_number \<Rightarrow> bool" where
  "positive_integer t = (case t of Integer n \<Rightarrow> 1 \<le> n | NotInteger \<Rightarrow> False | NaN \<Rightarrow> False)"

definition number_truthy :: "js_number \<Rightarrow> bool" where
  "number_truthy t = (case t of Integer n \<Rightarrow> n \<noteq> 0 | NotInteger \<Rightarrow> True | NaN \<Rightarrow> False)"

text \<open>\<^verbatim>\<open>take ?? 100\<close>\<close>

definition page_size :: "js_number option \<Rightarrow> js_number" where
  "page_size t = (case t of None \<Rightarrow> Integer 100 | Some n \<Rightarrow> n)"

record find_many_args =
  where_arg :: "js_object option"
  take_arg :: "js_number option"
  nextCursor_arg :: "string option"
  select_arg :: "js_object option"
  orderBy_arg :: "js_object option"

record find_one_args =
  id_arg :: string
  select_one :: "js_object option"

record find_many_response =
  items :: "js_object list"
  nextCursor :: "string option"

text \<open>
  \<^verbatim>\<open>IdSchema\<close>: a string of at least one character that matches \<^verbatim>\<open>/^\S+$/\<close>. The
  white space of a JavaScript regular expression, among the code units below 256, is
  tab, line feed, vertical tab, form feed, carriage return, space and no-break space.
\<close>

definition is_space :: "char \<Rightarrow> bool" where
  "is_space c = ((of_char c :: nat) \<in> {9, 10, 11, 12, 13, 32, 160})"

definition IdSchema :: "string \<Rightarrow> bool" where
  "IdSchema s = (1 \<le> length s \<and> list_all (\<lambda>c. \<not> is_space c) s)"

section \<open>The SQL-like backend: facade\<close>

definition buildQueryFindMany :: "find_many_args \<Rightarrow> error + string" where
  "buildQueryFindMany dto =
     (let fieldsSelected = constructFieldSelection (select_arg dto);
          orderByClause = constructOrderByClause (orderBy_arg dto)
      in case buildWhereClause (where_arg dto) of
           Inl e \<Rightarrow> Inl e
         | Inr whereClause \<Rightarrow>
             Inr (join '' '' (filter isNonEmptyString
                    [''SELECT'', fieldsSelected, ''FROM c'', whereClause, orderByClause])))"

definition buildQueryFindOne :: "find_one_args \<Rightarrow> string" where
  "buildQueryFindOne dto =
     (let fieldsSelected = constructFieldSelection (select_one dto);
          whereClause = ''WHERE c.id = '' @ [CHR 0x27] @ id_arg dto @ [CHR 0x27]
      in join '' '' (filter isNonEmptyString [''SELECT'', fieldsSelected, ''FROM c'', whereClause]))"

text \<open>
  The container of the store is outside the repository. Each of its calls is a function
  from what the facade sends to what the store answers, \<open>Inl\<close> carrying the message of a
  rejected call. \<open>ResOther\<close> is \<^verbatim>\<open>null\<close> or any other result set that is not an array.
\<close>

datatype resources = ResUndefined | ResOther | ResList "js_object list"

record feed_response =
  resources :: resources
  continuationToken :: "string option"

record container =
  fetchNext :: "string \<Rightarrow> string option \<Rightarrow> js_number \<Rightarrow> string + feed_response"
  fetchAll :: "string \<Rightarrow> string + resources"
  createItem :: "js_object \<Rightarrow> string + js_object"
  replaceItem :: "string \<Rightarrow> js_object \<Rightarrow> string + js_object"

definition cosmos_findMany :: "container \<Rightarrow> find_many_args \<Rightarrow> error + find_many_response" where
  "cosmos_findMany c args =
     (if (case take_arg args of None \<Rightarrow> False | Some t \<Rightarrow> \<not> positive_integer t)
      then Inl InvalidArgument
      else case buildQueryFindMany args of
             Inl e \<Rightarrow> Inl e
           | Inr query \<Rightarrow>
               (case fetchNext c query (nextCursor_arg args) (page_size (take_arg args)) of
                  Inl msg \<Rightarrow> Inl (BackendFailure msg)
                | Inr r \<Rightarrow>
                    (case resources r of
                       ResUndefined \<Rightarrow> Inr \<lparr>items = [], nextCursor = continuationToken r\<rparr>
                     | ResOther \<Rightarrow> Inl BackendContractViolation
                     | ResList xs \<Rightarrow> Inr \<lparr>items = xs, nextCursor = continuationToken r\<rparr>)))"

definition cosmos_findOne :: "container \<Rightarrow> find_one_args \<Rightarrow> error + js_object" where
  "cosmos_findOne c args =
     (if \<not> IdSchema (id_arg args) then Inl InvalidArgument
      else case fetchAll c (buildQueryFindOne args) of
             Inl msg \<Rightarrow> Inl (BackendFailure msg)
           | Inr res \<Rightarrow>
               (case res of
                  ResList xs \<Rightarrow> (case xs of [] \<Rightarrow> Inl NotFound | x # _ \<Rightarrow> Inr x)
                | _ \<Rightarrow> Inl BackendContractViolation))"


text \<open>
  \<^verbatim>\<open>update\<close>: the existence check is \<^verbatim>\<open>findOne\<close> with \<^verbatim>\<open>select: { id: true }\<close>, any
  failure of which is reported as the item not being found; the record sent to
  \<^verbatim>\<open>replace\<close> is \<^verbatim>\<open>{ ...existingItem, ...data }\<close>.
\<close>

definition cosmos_update :: "container \<Rightarrow> string \<Rightarrow> jsval \<Rightarrow> error + js_object" where
  "cosmos_update c ident data =
     (if \<not> IdSchema ident then Inl InvalidArgument
      else case data of
             VObj kvs \<Rightarrow>
               if objectIsEmpty kvs then Inl InvalidArgument
               else (case cosmos_findOne c \<lparr>id_arg = ident, select_one = Some [(''id'', VBool True)]\<rparr> of
                       Inl e \<Rightarrow> Inl NotFound
                     | Inr existingItem \<Rightarrow>
                         (case replaceItem c ident (spread (spread [] existingItem) kvs) of
                            Inl msg \<Rightarrow> Inl (BackendFailure msg)
                          | Inr resource \<Rightarrow> Inr resource))
           | _ \<Rightarrow> Inl InvalidArgument)"

section \<open>The key-value backend\<close>

datatype fields_option = FieldsAbsent | FieldsFlag bool | FieldsObject "bool option" "bool option"


record model_options =
  tableName :: string
  partitionKey :: string
  sortKey :: "string option"
  autoFields :: fields_option



subsection \<open>\<^verbatim>\<open>findMany\<close>: the scan request\<close>

datatype attribute_value = AttrS string | AttrN string | AttrBOOL bool

definition prepareValue :: "jsval \<Rightarrow> error + attribute_value" where
  "prepareValue v = (case v of
       VDate isoString dateString \<Rightarrow> Inr (AttrS isoString)
     | VStr s \<Rightarrow> Inr (AttrS s)
     | VNum n \<Rightarrow> Inr (AttrN (string_of_int n))
     | VBool b \<Rightarrow> Inr (AttrBOOL b)
     | _ \<Rightarrow> Inl UnsupportedValueType)"

definition operatorSymbols :: "(string \<times> string) list" where
  "operatorSymbols =
     [(''equals'', ''=''), (''not'', ''<>''), (''gt'', ''>''), (''gte'', ''>=''),
      (''lt'', ''<''), (''lte'', ''<='')]"

text \<open>
  \<^verbatim>\<open>operator in operatorSymbols\<close> also holds for the names every object inherits; the
  fragment built from such a name depends on the engine.
\<close>

definition inherited_names :: "string list" where
  "inherited_names =
     [''constructor'', ''hasOwnProperty'', ''isPrototypeOf'', ''propertyIsEnumerable'',
      ''toLocaleString'', ''toString'', ''valueOf'', ''__proto__'', ''__defineGetter__'',
      ''__defineSetter__'', ''__lookupGetter__'', ''__lookupSetter__'']"

definition typeof_object :: "jsval \<Rightarrow> bool" where
  "typeof_object v = (case v of
       VNull \<Rightarrow> True
     | VDate isoString dateString \<Rightarrow> True
     | VArr xs \<Rightarrow> True
     | VObj kvs \<Rightarrow> True
     | _ \<Rightarrow> False)"

definition own_entries :: "jsval \<Rightarrow> (string \<times> jsval) list" where
  "own_entries v = (case entries v of Inl e \<Rightarrow> [] | Inr es \<Rightarrow> es)"

record filter_state =
  filterExpression :: "string list"
  expressionAttributeNames :: "(string \<times> string) list"
  expressionAttributeValues :: "(string \<times> attribute_value) list"
  placeholderCounter :: nat

text \<open>
  The body of the loop over the fields of the where clause. Only the first key of a
  condition is read: \<^verbatim>\<open>const operator = keys[0]\<close>.
\<close>

definition compileCondition :: "filter_state \<Rightarrow> string \<times> jsval \<Rightarrow> error + filter_state" where
  "compileCondition st fc =
     (case fc of (field, condition) \<Rightarrow>
        (let keys = map fst (own_entries condition)
         in if \<not> truthy condition \<or> \<not> typeof_object condition \<or> length keys = 0
            then Inl MalformedFilter
            else
              (let operator = hd keys;
                   v = get (own_entries condition) operator
               in if v = VUndefined then Inl MalformedFilter
                  else
                    (let fieldPlaceholder = ''#'' @ field;
                         valuePlaceholder = '':val'' @ string_of_nat (placeholderCounter st)
                     in case prepareValue v of
                          Inl e \<Rightarrow> Inl e
                        | Inr av \<Rightarrow>
                            (let st' = st\<lparr>placeholderCounter := Suc (placeholderCounter st),
                                         expressionAttributeNames :=
                                           put fieldPlaceholder field (expressionAttributeNames st),
                                         expressionAttributeValues :=
                                           put valuePlaceholder av (expressionAttributeValues st)\<rparr>;
                                 push = (\<lambda>fragment. Inr (st'\<lparr>filterExpression := filterExpression st @ [fragment]\<rparr>))
                             in case map_of operatorSymbols operator of
                                  Some opSymbol \<Rightarrow>
                                    push (fieldPlaceholder @ '' '' @ opSymbol @ '' '' @ valuePlaceholder)
                                | None \<Rightarrow>
                                    if operator \<in> set inherited_names then Inl Unmodelled
                                    else if operator = ''contains''
                                      then push (''contains('' @ fieldPlaceholder @ '', '' @ valuePlaceholder @ '')'')
                                    else if operator = ''startsWith''
                                      then push (''begins_with('' @ fieldPlaceholder @ '', '' @ valuePlaceholder @ '')'')
                                    else if operator = ''endsWith''
                                      then push (''contains('' @ fieldPlaceholder @ '', '' @ valuePlaceholder @ '')'')
                                    else Inl (UnsupportedOperator operator))))))"

fun fold_err :: "('s \<Rightarrow> 'a \<Rightarrow> error + 's) \<Rightarrow> 's \<Rightarrow> 'a list \<Rightarrow> error + 's" where
  "fold_err f s [] = Inr s"
| "fold_err f s (x # xs) = (case f s x of Inl e \<Rightarrow> Inl e | Inr s' \<Rightarrow> fold_err f s' xs)"

definition compileWhere :: "js_object \<Rightarrow> error + filter_state" where
  "compileWhere w =
     fold_err compileCondition
       \<lparr>filterExpression = [], expressionAttributeNames = [], expressionAttributeValues = [],
        placeholderCounter = 0\<rparr> w"

record scan_input =
  TableName :: string
  Limit :: js_number
  ExclusiveStartKey :: "json option"
  FilterExpression :: "string option"
  ExpressionAttributeNames :: "(string \<times> string) list option"
  ExpressionAttributeValues :: "(string \<times> attribute_value) list option"

text \<open>Everything \<^verbatim>\<open>findMany\<close> does before it sends the scan.\<close>

definition scanInput :: "model_options \<Rightarrow> find_many_args \<Rightarrow> error + scan_input" where
  "scanInput options args =
     (if (case take_arg args of None \<Rightarrow> False | Some t \<Rightarrow> number_truthy t \<and> \<not> positive_integer t)
      then Inl InvalidArgument
      else
        (let params = \<lparr>TableName = tableName options, Limit = page_size (take_arg args),
                       ExclusiveStartKey = None, FilterExpression = None,
                       ExpressionAttributeNames = None, ExpressionAttributeValues = None\<rparr>
         in case (case nextCursor_arg args of
                    None \<Rightarrow> Inr params
                  | Some cur \<Rightarrow>
                      if cur = [] then Inr params
                      else (case decode_cursor cur of
                              Inl e \<Rightarrow> Inl e
                            | Inr k \<Rightarrow> Inr (params\<lparr>ExclusiveStartKey := Some k\<rparr>))) of
              Inl e \<Rightarrow> Inl e
            | Inr params1 \<Rightarrow>
                (case where_arg args of
                   None \<Rightarrow> Inr params1
                 | Some w \<Rightarrow>
                     if \<not> length (map fst w) > 0 then Inr params1
                     else (case compileWhere w of
                             Inl e \<Rightarrow> Inl e
                           | Inr st \<Rightarrow>
                               if length (filterExpression st) > 0
                               then Inr (params1\<lparr>FilterExpression := Some (join '' AND '' (filterExpression st)),
                                                 ExpressionAttributeNames := Some (expressionAttributeNames st),
                                                 ExpressionAttributeValues := Some (expressionAttributeValues st)\<rparr>)
                               else Inr params1))))"

text \<open>
  The answer of the scan, its items already unmarshalled, and the whole operation with
  the store's \<^verbatim>\<open>send\<close> as a function of the request.
\<close>

record scan_output =
  Items :: "js_object list option"
  LastEvaluatedKey :: "(string \<times> json) list option"

definition dynamo_findMany ::
  "model_options \<Rightarrow> (scan_input \<Rightarrow> string + scan_output) \<Rightarrow> find_many_args \<Rightarrow> error + find_many_response" where
  "dynamo_findMany options send args =
     (case scanInput options args of
        Inl e \<Rightarrow> Inl e
      | Inr params \<Rightarrow>
          (case send params of
             Inl msg \<Rightarrow> Inl (BackendFailure msg)
           | Inr out \<Rightarrow>
               Inr \<lparr>items = (case Items out of None \<Rightarrow> [] | Some xs \<Rightarrow> xs),
                    nextCursor = encode_cursor (LastEvaluatedKey out)\<rparr>))"

subsection \<open>\<^verbatim>\<open>create\<close>\<close>






section \<open>Verified properties\<close>

subsection \<open>Projection planner\<close>

lemma join_Cons: "join sep (x # xs) = x @ (if xs = [] then [] else sep @ join sep xs)"
  by (cases xs) simp_all

lemma join_nonempty: "x \<noteq> [] \<Longrightarrow> join sep (x # xs) \<noteq> []"
  by (simp add: join_Cons)







subsection \<open>Clause assembler: operators of one field\<close>

lemma compileCondition_first_entry:
  "compileCondition st (field, VObj (kv # others)) = compileCondition st (field, VObj [kv])"
  by (cases kv)
     (simp add: compileCondition_def own_entries_def entries_def get_def truthy_def
        typeof_object_def Let_def)

text \<open>
  Claim C1. The key-value backend reads only the first entry of a field's condition:
  whatever follows it is dropped, so a condition with two operators contributes one
  fragment. For \<^verbatim>\<open>{ age: { lte: 20, gte: 10 } }\<close> the scan filters on
  \<^verbatim>\<open>#age <= :val0\<close> alone, while the SQL-like backend joins both fragments with AND.
\<close>

theorem keyvalue_where_first_operator_only:
  "compileCondition st (field, VObj (kv # others)) = compileCondition st (field, VObj [kv])
   \<and> scanInput options
         \<lparr>where_arg = Some [(''age'', VObj [(''lte'', VNum 20), (''gte'', VNum 10)])],
          take_arg = None, nextCursor_arg = None, select_arg = None, orderBy_arg = None\<rparr>
       = Inr \<lparr>TableName = tableName options, Limit = Integer 100, ExclusiveStartKey = None,
              FilterExpression = Some ''#age <= :val0'',
              ExpressionAttributeNames = Some [(''#age'', ''age'')],
              ExpressionAttributeValues = Some [('':val0'', AttrN ''20'')]\<rparr>
   \<and> buildWhereClause (Some [(''age'', VObj [(''lte'', VNum 20), (''gte'', VNum 10)])])
       = Inr ''WHERE c.age <= 20 AND c.age >= 10''"
proof (intro conjI)
  show "compileCondition st (field, VObj (kv # others)) = compileCondition st (field, VObj [kv])"
    by (rule compileCondition_first_entry)
  show "scanInput options
         \<lparr>where_arg = Some [(''age'', VObj [(''lte'', VNum 20), (''gte'', VNum 10)])],
          take_arg = None, nextCursor_arg = None, select_arg = None, orderBy_arg = None\<rparr>
       = Inr \<lparr>TableName = tableName options, Limit = Integer 100, ExclusiveStartKey = None,
              FilterExpression = Some ''#age <= :val0'',
              ExpressionAttributeNames = Some [(''#age'', ''age'')],
              ExpressionAttributeValues = Some [('':val0'', AttrN ''20'')]\<rparr>"
    by code_simp
  show "buildWhereClause (Some [(''age'', VObj [(''lte'', VNum 20), (''gte'', VNum 10)])])
       = Inr ''WHERE c.age <= 20 AND c.age >= 10''"
    by code_simp
qed

theorem keyvalue_where_first_operator_only_witness:
  "compileCondition
     \<lparr>filterExpression = [], expressionAttributeNames = [], expressionAttributeValues = [],
      placeholderCounter = 0\<rparr>
     (''age'', VObj [(''lte'', VNum 20), (''gte'', VNum 10), (''not'', VNum 15)])
   = Inr \<lparr>filterExpression = [''#age <= :val0''],
          expressionAttributeNames = [(''#age'', ''age'')],
          expressionAttributeValues = [('':val0'', AttrN ''20'')],
          placeholderCounter = 1\<rparr>"
proof -
  have "compileCondition
     \<lparr>filterExpression = [], expressionAttributeNames = [], expressionAttributeValues = [],
      placeholderCounter = 0\<rparr>
     (''age'', VObj [(''lte'', VNum 20)])
   = Inr \<lparr>filterExpression = [''#age <= :val0''],
          expressionAttributeNames = [(''#age'', ''age'')],
          expressionAttributeValues = [('':val0'', AttrN ''20'')],
          placeholderCounter = 1\<rparr>"
    by code_simp
  with keyvalue_where_first_operator_only
         [of "\<lparr>filterExpression = [], expressionAttributeNames = [], expressionAttributeValues = [],
               placeholderCounter = 0\<rparr>" "''age''" "(''lte'', VNum 20)"
             "[(''gte'', VNum 10), (''not'', VNum 15)]"]
  show ?thesis by simp
qed

subsection \<open>Predicate compiler: endsWith\<close>






subsection \<open>Predicate compiler: in and notIn\<close>

lemma compileCondition_in:
  "compileCondition st (field, VObj ((''in'', VArr xs) # others)) = Inl UnsupportedValueType"
  by (simp add: compileCondition_def own_entries_def entries_def get_def truthy_def
        typeof_object_def prepareValue_def Let_def)

lemma compileCondition_notIn:
  "compileCondition st (field, VObj ((''notIn'', VArr xs) # others)) = Inl UnsupportedValueType"
  by (simp add: compileCondition_def own_entries_def entries_def get_def truthy_def
        typeof_object_def prepareValue_def Let_def)

text \<open>
  Claim C6, as stated, fails on the key-value backend: an array operand is no value the
  backend can bind, so \<^verbatim>\<open>{ age: { in: [25, 30, 35] } }\<close> is rejected instead of being
  rendered as a list.
\<close>

theorem in_on_keyvalue_counterexample:
  "compileWhere [(''age'', VObj [(''in'', VArr [VNum 25, VNum 30, VNum 35])])]
     = Inl UnsupportedValueType
   \<and> scanInput \<lparr>tableName = ''Users'', partitionKey = ''id'', sortKey = None, autoFields = FieldsAbsent\<rparr>
         \<lparr>where_arg = Some [(''age'', VObj [(''in'', VArr [VNum 25, VNum 30, VNum 35])])],
          take_arg = None, nextCursor_arg = None, select_arg = None, orderBy_arg = None\<rparr>
     = Inl UnsupportedValueType"
  by (simp add: scanInput_def compileWhere_def compileCondition_in)

text \<open>
  Claim C6, amended. On the SQL-like backend \<^verbatim>\<open>in\<close> and \<^verbatim>\<open>notIn\<close> with an array
  operand compile to \<^verbatim>\<open>c.field IN (...)\<close> and \<^verbatim>\<open>c.field NOT IN (...)\<close>, the elements
  joined by a comma and a space and written by the rule of \<^verbatim>\<open>equals\<close>: a number or a
  boolean bare, a string between apostrophes. \<^verbatim>\<open>{ age: { in: [25, 30, 35] } }\<close> gives
  \<^verbatim>\<open>WHERE c.age IN (25, 30, 35)\<close>. A string, number or boolean operand makes the
  compilation fail with the TypeError of the runtime. On the key-value backend a
  condition whose first operator is \<^verbatim>\<open>in\<close> or \<^verbatim>\<open>notIn\<close> with an array operand is
  rejected as an unsupported value type.
\<close>

theorem in_notIn_compilation:
  "createFilter field ''in'' mode (VArr xs)
     = Inr (''c.'' @ field @ '' IN ('' @ join '', '' (map literal xs) @ '')'')
   \<and> createFilter field ''notIn'' mode (VArr xs)
     = Inr (''c.'' @ field @ '' NOT IN ('' @ join '', '' (map literal xs) @ '')'')
   \<and> createFilter field ''equals'' mode v = Inr (''c.'' @ field @ '' = '' @ literal v)
   \<and> literal (VNum n) = string_of_int n
   \<and> literal (VBool b) = (if b then ''true'' else ''false'')
   \<and> literal (VStr s) = [CHR 0x27] @ s @ [CHR 0x27]
   \<and> buildWhereClause (Some [(''age'', VObj [(''in'', VArr [VNum 25, VNum 30, VNum 35])])])
     = Inr ''WHERE c.age IN (25, 30, 35)''
   \<and> (\<forall>w \<in> {VStr s, VNum n, VBool b}.
         createFilter field ''in'' mode w = Inl TypeError
         \<and> createFilter field ''notIn'' mode w = Inl TypeError)
   \<and> compileCondition st (field, VObj ((''in'', VArr xs) # others)) = Inl UnsupportedValueType
   \<and> compileCondition st (field, VObj ((''notIn'', VArr xs) # others)) = Inl UnsupportedValueType"
proof (intro conjI)
  show "createFilter field ''in'' mode (VArr xs)
     = Inr (''c.'' @ field @ '' IN ('' @ join '', '' (map literal xs) @ '')'')"
    by (simp add: createFilter_def literal_list_def del: join.simps)
  show "createFilter field ''notIn'' mode (VArr xs)
     = Inr (''c.'' @ field @ '' NOT IN ('' @ join '', '' (map literal xs) @ '')'')"
    by (simp add: createFilter_def literal_list_def del: join.simps)
  show "createFilter field ''equals'' mode v = Inr (''c.'' @ field @ '' = '' @ literal v)"
    by (simp add: createFilter_def compare_with_def)
  show "literal (VNum n) = string_of_int n"
    by (simp add: literal_def isNumber_def)
  show "literal (VBool b) = (if b then ''true'' else ''false'')"
    by (simp add: literal_def isBoolean_def)
  show "literal (VStr s) = [CHR 0x27] @ s @ [CHR 0x27]"
    by (simp add: literal_def isBoolean_def isNumber_def)
  show "buildWhereClause (Some [(''age'', VObj [(''in'', VArr [VNum 25, VNum 30, VNum 35])])])
     = Inr ''WHERE c.age IN (25, 30, 35)''"
    by code_simp
  show "\<forall>w \<in> {VStr s, VNum n, VBool b}.
         createFilter field ''in'' mode w = Inl TypeError
         \<and> createFilter field ''notIn'' mode w = Inl TypeError"
    by (simp add: createFilter_def literal_list_def)
  show "compileCondition st (field, VObj ((''in'', VArr xs) # others)) = Inl UnsupportedValueType"
    by (rule compileCondition_in)
  show "compileCondition st (field, VObj ((''notIn'', VArr xs) # others)) = Inl UnsupportedValueType"
    by (rule compileCondition_notIn)
qed

theorem in_notIn_compilation_witness:
  "createFilter ''firstName'' ''notIn'' (VStr ''SENSITIVE'') (VArr [VStr ''Alice'', VStr ''Bob''])
     = Inr ''c.firstName NOT IN ('Alice', 'Bob')''
   \<and> createFilter ''age'' ''in'' (VStr ''SENSITIVE'') (VArr [VNum 25, VBool True, VStr ''x''])
     = Inr ''c.age IN (25, true, 'x')''
   \<and> createFilter ''age'' ''in'' (VStr ''SENSITIVE'') (VNum 25) = Inl TypeError"
proof -
  have lits: "string_of_int 25 = ''25''"
    by code_simp
  note names = in_notIn_compilation
            [of "''firstName''" "VStr ''SENSITIVE''" "[VStr ''Alice'', VStr ''Bob'']" VNull 25 True "''Alice''"
                "\<lparr>filterExpression = [], expressionAttributeNames = [],
                  expressionAttributeValues = [], placeholderCounter = 0\<rparr>" "[]"]
  note ages = in_notIn_compilation
            [of "''age''" "VStr ''SENSITIVE''" "[VNum 25, VBool True, VStr ''x'']" VNull 25 True "''x''"
                "\<lparr>filterExpression = [], expressionAttributeNames = [],
                  expressionAttributeValues = [], placeholderCounter = 0\<rparr>" "[]"]
  have "createFilter ''firstName'' ''notIn'' (VStr ''SENSITIVE'') (VArr [VStr ''Alice'', VStr ''Bob''])
     = Inr ''c.firstName NOT IN ('Alice', 'Bob')''"
    using names by (simp add: literal_def isBoolean_def isNumber_def)
  moreover have "createFilter ''age'' ''in'' (VStr ''SENSITIVE'') (VArr [VNum 25, VBool True, VStr ''x''])
     = Inr ''c.age IN (25, true, 'x')''"
    using ages by (simp add: literal_def isBoolean_def isNumber_def lits)
  moreover have "createFilter ''age'' ''in'' (VStr ''SENSITIVE'') (VNum 25) = Inl TypeError"
    using ages by simp
  ultimately show ?thesis by simp
qed

subsection \<open>Clause assembler: a condition without operators\<close>

lemma map_err_append:
  "map_err f (xs @ ys) =
     (case map_err f xs of
        Inl e \<Rightarrow> Inl e
      | Inr as \<Rightarrow> (case map_err f ys of Inl e \<Rightarrow> Inl e | Inr bs \<Rightarrow> Inr (as @ bs)))"
  by (induction xs) (auto split: sum.splits)

lemma fold_err_append:
  "fold_err f s (xs @ ys) =
     (case fold_err f s xs of Inl e \<Rightarrow> Inl e | Inr s' \<Rightarrow> fold_err f s' ys)"
  by (induction xs arbitrary: s) (auto split: sum.splits)

lemma createFilter_mode: "createFilter field ''mode'' mode v = Inr []"
  by (simp add: createFilter_def)

lemma filterQueriesForField_empty: "filterQueriesForField (field, VObj []) = Inr []"
  by (simp add: filterQueriesForField_def entries_def)

lemma filterQueriesForField_mode_only:
  "filterQueriesForField (field, VObj [(''mode'', m)]) = Inr [[]]"
  by (simp add: filterQueriesForField_def entries_def createFilter_mode Let_def)

lemma whereConditions_skip:
  assumes "filterQueriesForField fc = Inr fs" and "filter isNonEmptyString fs = []"
  shows "whereConditions (pre @ fc # post) = whereConditions (pre @ post)"
  using assms
  by (simp add: whereConditions_def map_err_append split: sum.splits)

lemma buildWhereClause_skip:
  assumes "filterQueriesForField fc = Inr fs" and "filter isNonEmptyString fs = []"
  shows "buildWhereClause (Some (pre @ fc # post)) = buildWhereClause (Some (pre @ post))"
proof (cases "pre @ post = []")
  case True
  then have "whereConditions (pre @ fc # post) = Inr []"
    using assms by (simp add: whereConditions_def)
  with True show ?thesis
    by (simp add: buildWhereClause_def objectIsEmpty_def isEmptyArray_def)
next
  case False
  then show ?thesis
    using whereConditions_skip[OF assms, of pre post]
    by (auto simp add: buildWhereClause_def objectIsEmpty_def)
qed

lemma compileCondition_empty: "compileCondition st (field, VObj []) = Inl MalformedFilter"
  by (simp add: compileCondition_def own_entries_def entries_def)

lemma compileCondition_mode_only:
  "compileCondition st (field, VObj [(''mode'', m)])
     \<in> {Inl MalformedFilter, Inl UnsupportedValueType, Inl (UnsupportedOperator ''mode'')}"
  by (cases m)
     (simp_all add: compileCondition_def own_entries_def entries_def get_def truthy_def
        typeof_object_def prepareValue_def operatorSymbols_def inherited_names_def Let_def)

text \<open>
  Claim C4, as stated, fails on both backends, which behave the other way round: for a
  condition with no operator the SQL-like builder returns no clause and no error, and
  the key-value backend throws.
\<close>

theorem empty_condition_counterexample:
  "buildWhereClause (Some [(''age'', VObj [])]) = Inr []
   \<and> buildQueryFindMany
         \<lparr>where_arg = Some [(''age'', VObj [])], take_arg = None, nextCursor_arg = None,
          select_arg = None, orderBy_arg = None\<rparr>
     = Inr ''SELECT * FROM c''
   \<and> scanInput \<lparr>tableName = ''Users'', partitionKey = ''id'', sortKey = None, autoFields = FieldsAbsent\<rparr>
         \<lparr>where_arg = Some [(''age'', VObj [])], take_arg = None, nextCursor_arg = None,
          select_arg = None, orderBy_arg = None\<rparr>
     = Inl MalformedFilter"
  by code_simp

text \<open>
  Claim C4, amended. On the SQL-like backend a field whose condition has no entry, or
  only \<^verbatim>\<open>mode\<close>, is skipped: the where clause is the one built without that field, with
  no error and no fragment for it. On the key-value backend the fields before it are
  compiled first; then a condition without entries fails as an invalid condition, and a
  condition with \<^verbatim>\<open>mode\<close> alone fails as well (invalid condition, unsupported value type
  or unsupported operator \<^verbatim>\<open>mode\<close>).
\<close>

theorem empty_condition_by_backend:
  "buildWhereClause (Some (pre @ (field, VObj []) # post)) = buildWhereClause (Some (pre @ post))
   \<and> buildWhereClause (Some (pre @ (field, VObj [(''mode'', m)]) # post))
       = buildWhereClause (Some (pre @ post))
   \<and> compileWhere (pre @ (field, VObj []) # post)
       = (case compileWhere pre of Inl e \<Rightarrow> Inl e | Inr st \<Rightarrow> Inl MalformedFilter)
   \<and> compileWhere (pre @ (field, VObj [(''mode'', m)]) # post)
       = (case compileWhere pre of
            Inl e \<Rightarrow> Inl e
          | Inr st \<Rightarrow> compileCondition st (field, VObj [(''mode'', m)]))
   \<and> compileCondition st (field, VObj [(''mode'', m)])
       \<in> {Inl MalformedFilter, Inl UnsupportedValueType, Inl (UnsupportedOperator ''mode'')}"
proof (intro conjI)
  show "buildWhereClause (Some (pre @ (field, VObj []) # post)) = buildWhereClause (Some (pre @ post))"
    by (rule buildWhereClause_skip[OF filterQueriesForField_empty]) simp
  show "buildWhereClause (Some (pre @ (field, VObj [(''mode'', m)]) # post))
       = buildWhereClause (Some (pre @ post))"
    by (rule buildWhereClause_skip[OF filterQueriesForField_mode_only])
       (simp add: isNonEmptyString_def)
  show "compileWhere (pre @ (field, VObj []) # post)
       = (case compileWhere pre of Inl e \<Rightarrow> Inl e | Inr st \<Rightarrow> Inl MalformedFilter)"
    by (simp add: compileWhere_def fold_err_append compileCondition_empty split: sum.splits)
  show "compileCondition st (field, VObj [(''mode'', m)])
       \<in> {Inl MalformedFilter, Inl UnsupportedValueType, Inl (UnsupportedOperator ''mode'')}"
    by (rule compileCondition_mode_only)
  show "compileWhere (pre @ (field, VObj [(''mode'', m)]) # post)
       = (case compileWhere pre of
            Inl e \<Rightarrow> Inl e
          | Inr st \<Rightarrow> compileCondition st (field, VObj [(''mode'', m)]))"
  proof (cases "compileWhere pre")
    case (Inl e)
    then show ?thesis by (simp add: compileWhere_def fold_err_append)
  next
    case (Inr st')
    obtain e where "compileCondition st' (field, VObj [(''mode'', m)]) = Inl e"
      using compileCondition_mode_only[of st' field m] by auto
    with Inr show ?thesis by (simp add: compileWhere_def fold_err_append)
  qed
qed

theorem empty_condition_by_backend_witness:
  "buildWhereClause (Some [(''age'', VObj [(''gt'', VNum 30)]), (''firstName'', VObj [])])
     = Inr ''WHERE c.age > 30''
   \<and> compileWhere [(''age'', VObj [(''gt'', VNum 30)]), (''firstName'', VObj [])]
     = Inl MalformedFilter
   \<and> compileWhere [(''firstName'', VObj [(''mode'', VStr ''INSENSITIVE'')])]
     = Inl (UnsupportedOperator ''mode'')"
proof -
  have sql: "buildWhereClause (Some [(''age'', VObj [(''gt'', VNum 30)])]) = Inr ''WHERE c.age > 30''"
    by code_simp
  have kv: "compileWhere [(''age'', VObj [(''gt'', VNum 30)])]
      = Inr \<lparr>filterExpression = [''#age > :val0''],
             expressionAttributeNames = [(''#age'', ''age'')],
             expressionAttributeValues = [('':val0'', AttrN ''30'')],
             placeholderCounter = 1\<rparr>"
    by code_simp
  have none: "compileWhere [] = Inr \<lparr>filterExpression = [], expressionAttributeNames = [],
             expressionAttributeValues = [], placeholderCounter = 0\<rparr>"
    by (simp add: compileWhere_def)
  have mode: "compileCondition \<lparr>filterExpression = [], expressionAttributeNames = [],
             expressionAttributeValues = [], placeholderCounter = 0\<rparr>
             (''firstName'', VObj [(''mode'', VStr ''INSENSITIVE'')])
           = Inl (UnsupportedOperator ''mode'')"
    by code_simp
  show ?thesis
    using empty_condition_by_backend
            [of "[(''age'', VObj [(''gt'', VNum 30)])]" "''firstName''" "[]" VNull
                "\<lparr>filterExpression = [], expressionAttributeNames = [],
                  expressionAttributeValues = [], placeholderCounter = 0\<rparr>"]
          empty_condition_by_backend
            [of "[]" "''firstName''" "[]" "VStr ''INSENSITIVE''"
                "\<lparr>filterExpression = [], expressionAttributeNames = [],
                  expressionAttributeValues = [], placeholderCounter = 0\<rparr>"]
          sql kv none mode
    by simp
qed

subsection \<open>Facade: validation of take\<close>

lemma cosmos_findMany_take:
  "\<not> positive_integer t \<Longrightarrow> cosmos_findMany c (args\<lparr>take_arg := Some t\<rparr>) = Inl InvalidArgument"
  by (simp add: cosmos_findMany_def)

lemma scanInput_take:
  "number_truthy t \<Longrightarrow> \<not> positive_integer t \<Longrightarrow>
     scanInput options (args\<lparr>take_arg := Some t\<rparr>) = Inl InvalidArgument"
  by (simp add: scanInput_def)

text \<open>
  Claim C5. On the key-value backend the test is \<^verbatim>\<open>take && ...\<close>, which a \<^verbatim>\<open>take\<close> of
  0 passes as falsy: no error is raised and the scan is sent with \<^verbatim>\<open>Limit: 0\<close>. The
  SQL-like backend rejects the same request, and both backends reject every other
  \<^verbatim>\<open>take\<close> that is a number but no positive integer, and default to a page of 100.
\<close>

theorem take_zero_reaches_the_scan:
  "dynamo_findMany options send
      \<lparr>where_arg = None, take_arg = Some (Integer 0), nextCursor_arg = None,
       select_arg = sel, orderBy_arg = ob\<rparr>
     = (case send \<lparr>TableName = tableName options, Limit = Integer 0, ExclusiveStartKey = None,
                    FilterExpression = None, ExpressionAttributeNames = None,
                    ExpressionAttributeValues = None\<rparr> of
          Inl msg \<Rightarrow> Inl (BackendFailure msg)
        | Inr out \<Rightarrow>
            Inr \<lparr>items = (case Items out of None \<Rightarrow> [] | Some xs \<Rightarrow> xs),
                 nextCursor = encode_cursor (LastEvaluatedKey out)\<rparr>)
   \<and> cosmos_findMany c
      \<lparr>where_arg = None, take_arg = Some (Integer 0), nextCursor_arg = None,
       select_arg = sel, orderBy_arg = ob\<rparr>
     = Inl InvalidArgument
   \<and> (n < 1 \<and> n \<noteq> 0 \<longrightarrow>
        scanInput options (args\<lparr>take_arg := Some (Integer n)\<rparr>) = Inl InvalidArgument
        \<and> cosmos_findMany c (args\<lparr>take_arg := Some (Integer n)\<rparr>) = Inl InvalidArgument)
   \<and> scanInput options (args\<lparr>take_arg := Some NotInteger\<rparr>) = Inl InvalidArgument
   \<and> cosmos_findMany c (args\<lparr>take_arg := Some NotInteger\<rparr>) = Inl InvalidArgument
   \<and> page_size None = Integer 100"
proof (intro conjI impI)
  show "dynamo_findMany options send
      \<lparr>where_arg = None, take_arg = Some (Integer 0), nextCursor_arg = None,
       select_arg = sel, orderBy_arg = ob\<rparr>
     = (case send \<lparr>TableName = tableName options, Limit = Integer 0, ExclusiveStartKey = None,
                    FilterExpression = None, ExpressionAttributeNames = None,
                    ExpressionAttributeValues = None\<rparr> of
          Inl msg \<Rightarrow> Inl (BackendFailure msg)
        | Inr out \<Rightarrow>
            Inr \<lparr>items = (case Items out of None \<Rightarrow> [] | Some xs \<Rightarrow> xs),
                 nextCursor = encode_cursor (LastEvaluatedKey out)\<rparr>)"
    by (simp add: dynamo_findMany_def scanInput_def number_truthy_def page_size_def)
  show "cosmos_findMany c
      \<lparr>where_arg = None, take_arg = Some (Integer 0), nextCursor_arg = None,
       select_arg = sel, orderBy_arg = ob\<rparr>
     = Inl InvalidArgument"
    by (simp add: cosmos_findMany_def positive_integer_def)
  show "scanInput options (args\<lparr>take_arg := Some NotInteger\<rparr>) = Inl InvalidArgument"
    by (rule scanInput_take) (simp_all add: number_truthy_def positive_integer_def)
  show "cosmos_findMany c (args\<lparr>take_arg := Some NotInteger\<rparr>) = Inl InvalidArgument"
    by (rule cosmos_findMany_take) (simp add: positive_integer_def)
  show "page_size None = Integer 100"
    by (simp add: page_size_def)
next
  assume n: "n < 1 \<and> n \<noteq> 0"
  show "scanInput options (args\<lparr>take_arg := Some (Integer n)\<rparr>) = Inl InvalidArgument"
    using n by (intro scanInput_take) (simp_all add: number_truthy_def positive_integer_def)
  show "cosmos_findMany c (args\<lparr>take_arg := Some (Integer n)\<rparr>) = Inl InvalidArgument"
    using n by (intro cosmos_findMany_take) (simp add: positive_integer_def)
qed

theorem take_zero_reaches_the_scan_witness:
  "dynamo_findMany
      \<lparr>tableName = ''Users'', partitionKey = ''id'', sortKey = None, autoFields = FieldsAbsent\<rparr>
      (\<lambda>params. if Limit params = Integer 0
                 then Inl ''1 validation error detected: Value 0 at limit failed to satisfy constraint''
                 else Inr \<lparr>Items = Some [], LastEvaluatedKey = None\<rparr>)
      \<lparr>where_arg = None, take_arg = Some (Integer 0), nextCursor_arg = None,
       select_arg = None, orderBy_arg = None\<rparr>
     = Inl (BackendFailure ''1 validation error detected: Value 0 at limit failed to satisfy constraint'')
   \<and> scanInput
      \<lparr>tableName = ''Users'', partitionKey = ''id'', sortKey = None, autoFields = FieldsAbsent\<rparr>
      \<lparr>where_arg = None, take_arg = Some (Integer (- 1)), nextCursor_arg = None,
       select_arg = None, orderBy_arg = None\<rparr>
     = Inl InvalidArgument"
  using take_zero_reaches_the_scan
          [of "\<lparr>tableName = ''Users'', partitionKey = ''id'', sortKey = None, autoFields = FieldsAbsent\<rparr>"
              "(\<lambda>params. if Limit params = Integer 0
                 then Inl ''1 validation error detected: Value 0 at limit failed to satisfy constraint''
                 else Inr \<lparr>Items = Some [], LastEvaluatedKey = None\<rparr>)"
              None None
              "\<lparr>fetchNext = (\<lambda>q cur n. Inl []), fetchAll = (\<lambda>q. Inl []),
                createItem = (\<lambda>d. Inl []), replaceItem = (\<lambda>i d. Inl [])\<rparr>"
              "- 1"
              "\<lparr>where_arg = None, take_arg = None, nextCursor_arg = None,
                select_arg = None, orderBy_arg = None\<rparr>"]
  by simp

subsection \<open>Facade: update on the SQL-like backend\<close>

lemma buildQueryFindOne_id_only:
  "buildQueryFindOne \<lparr>id_arg = ident, select_one = Some [(''id'', VBool True)]\<rparr>
     = ''SELECT c.id FROM c WHERE c.id = '' @ [CHR 0x27] @ ident @ [CHR 0x27]"
  by (simp add: buildQueryFindOne_def constructFieldSelection_def objectIsEmpty_def
        isEmptyArray_def isNonEmptyString_def get_def Let_def)

text \<open>
  Claim C2. The record that \<^verbatim>\<open>update\<close> merges the payload over is the answer to the
  existence check, and that check selects the id alone
  (\<^verbatim>\<open>SELECT c.id FROM c WHERE c.id = '<id>'\<close>). What is sent to \<^verbatim>\<open>replace\<close> is
  therefore the id and the payload: the other fields of the stored record are not in it.
  An absent record is reported as not found, and the resource the store returns is the
  result.
\<close>

theorem cosmos_update_merges_over_id_projection:
  assumes "IdSchema ident" and "kvs \<noteq> []"
  shows "(fetchAll c (''SELECT c.id FROM c WHERE c.id = '' @ [CHR 0x27] @ ident @ [CHR 0x27])
            = Inr (ResList (existingItem # others)) \<longrightarrow>
          cosmos_update c ident (VObj kvs) =
            (case replaceItem c ident (spread (spread [] existingItem) kvs) of
               Inl msg \<Rightarrow> Inl (BackendFailure msg)
             | Inr resource \<Rightarrow> Inr resource))
       \<and> (fetchAll c (''SELECT c.id FROM c WHERE c.id = '' @ [CHR 0x27] @ ident @ [CHR 0x27])
            = Inr (ResList []) \<longrightarrow>
          cosmos_update c ident (VObj kvs) = Inl NotFound)"
  using assms
  by (simp add: cosmos_update_def cosmos_findOne_def buildQueryFindOne_id_only objectIsEmpty_def)

theorem cosmos_update_merges_over_id_projection_witness:
  "cosmos_update
     \<lparr>fetchNext = (\<lambda>q cur n. Inr \<lparr>resources = ResList [], continuationToken = None\<rparr>),
      fetchAll = (\<lambda>q. if q = ''SELECT c.id FROM c WHERE c.id = 'u1'' @ [CHR 0x27]
                       then Inr (ResList [[(''id'', VStr ''u1'')]])
                       else if q = ''SELECT * FROM c WHERE c.id = 'u1'' @ [CHR 0x27]
                       then Inr (ResList [[(''id'', VStr ''u1''), (''firstName'', VStr ''Bob''),
                                           (''lastName'', VStr ''Ross'')]])
                       else Inr (ResList [])),
      createItem = (\<lambda>d. Inr d),
      replaceItem = (\<lambda>i body. Inr body)\<rparr>
     ''u1'' (VObj [(''firstName'', VStr ''Al'')])
   = Inr [(''id'', VStr ''u1''), (''firstName'', VStr ''Al'')]"
proof -
  have i: "IdSchema ''u1''"
    by (simp add: IdSchema_def is_space_def)
  show ?thesis
    using cosmos_update_merges_over_id_projection
            [OF i, of "[(''firstName'', VStr ''Al'')]"
               "\<lparr>fetchNext = (\<lambda>q cur n. Inr \<lparr>resources = ResList [], continuationToken = None\<rparr>),
                 fetchAll = (\<lambda>q. if q = ''SELECT c.id FROM c WHERE c.id = 'u1'' @ [CHR 0x27]
                       then Inr (ResList [[(''id'', VStr ''u1'')]])
                       else if q = ''SELECT * FROM c WHERE c.id = 'u1'' @ [CHR 0x27]
                       then Inr (ResList [[(''id'', VStr ''u1''), (''firstName'', VStr ''Bob''),
                                           (''lastName'', VStr ''Ross'')]])
                       else Inr (ResList [])),
                 createItem = (\<lambda>d. Inr d),
                 replaceItem = (\<lambda>i body. Inr body)\<rparr>"
               "[(''id'', VStr ''u1'')]" "[]"]
    by (simp add: spread_def)
qed

subsection \<open>Facade: create\<close>














subsection \<open>Facade: key fields of a created item\<close>



subsection \<open>Pagination cursor codec\<close>

lemma hex_val_hex_char_all: "list_all (\<lambda>d. hex_val (hex_char d) = Some d) [0..<16]"
  by code_simp

lemma hex_val_hex_char: "d < 16 \<Longrightarrow> hex_val (hex_char d) = Some d"
  using hex_val_hex_char_all by (simp add: list_all_iff)

lemma hex_val_zero: "hex_val (CHR ''0'') = Some 0"
  by (simp add: hex_val_def)

lemma code_unit_low:
  assumes "(of_char c :: nat) < 32"
  shows "code_unit (CHR ''0'') (CHR ''0'') (hex_char (of_char c div 16)) (hex_char (of_char c mod 16))
           = Inr c"
proof -
  let ?n = "of_char c :: nat"
  have hi: "hex_val (hex_char (?n div 16)) = Some (?n div 16)"
    using assms by (intro hex_val_hex_char) simp
  have lo: "hex_val (hex_char (?n mod 16)) = Some (?n mod 16)"
    by (intro hex_val_hex_char) simp
  have "?n div 16 * 16 + ?n mod 16 = ?n" by simp
  moreover have "?n < 256" using assms by simp
  ultimately show ?thesis
    by (simp add: code_unit_def hi lo hex_val_zero Let_def)
qed

lemma parse_chars_escape:
  "parse_chars (escape_char c @ rest) = cons_char c (parse_chars rest)"
proof -
  consider "c = CHR 0x22" | "c = CHR 0x5C" | "c = CHR 0x08" | "c = CHR 0x0C" | "c = CHR 0x0A"
    | "c = CHR 0x0D" | "c = CHR 0x09"
    | "c \<notin> {CHR 0x22, CHR 0x5C, CHR 0x08, CHR 0x0C, CHR 0x0A, CHR 0x0D, CHR 0x09}"
      "(of_char c :: nat) < 32"
    | "c \<notin> {CHR 0x22, CHR 0x5C, CHR 0x08, CHR 0x0C, CHR 0x0A, CHR 0x0D, CHR 0x09}"
      "\<not> (of_char c :: nat) < 32"
    by blast
  then show ?thesis
  proof cases
    case 8
    then show ?thesis
      by (simp add: escape_char_def code_unit_low)
  next
    case 9
    then show ?thesis
      by (simp add: escape_char_def)
  qed (simp_all add: escape_char_def unescape_def)
qed

lemma parse_chars_quote:
  "parse_chars (concat (map escape_char s) @ CHR 0x22 # r) = Inr (s, r)"
  by (induction s) (simp_all add: parse_chars_escape cons_char_def)

lemma put_fresh: "k \<notin> fst ` set acc \<Longrightarrow> put k v acc = acc @ [(k, v)]"
  by (induction acc) auto

lemma skip_ws_Cons: "\<not> is_ws c \<Longrightarrow> skip_ws (c # s) = c # s"
  by (simp add: skip_ws_def)


lemma not_ws_simps [simp]:
  "\<not> is_ws (CHR 0x22)" "\<not> is_ws (CHR '':'')" "\<not> is_ws (CHR '','')" "\<not> is_ws (CHR '']'')"
  "\<not> is_ws (CHR ''}'')" "\<not> is_ws (CHR ''['')" "\<not> is_ws (CHR ''{'')" "\<not> is_ws (CHR ''n'')"
  "\<not> is_ws (CHR ''t'')" "\<not> is_ws (CHR ''f'')"
  by (simp_all add: is_ws_def)

lemma parse_value_null: "parse_value (Suc m) (''null'' @ r) = Inr (JNull, r)"
  by (simp add: skip_ws_Cons)

lemma parse_value_true: "parse_value (Suc m) (''true'' @ r) = Inr (JBool True, r)"
  by (simp add: skip_ws_Cons)

lemma parse_value_false: "parse_value (Suc m) (''false'' @ r) = Inr (JBool False, r)"
  by (simp add: skip_ws_Cons)

lemma parse_value_string: "parse_value (Suc m) (quote s @ r) = Inr (JStr s, r)"
  by (simp add: quote_def skip_ws_Cons parse_chars_quote)

lemma parse_value_empty_array: "parse_value (Suc m) (''[]'' @ r) = Inr (JArr [], r)"
  by (simp add: skip_ws_Cons)

lemma parse_value_empty_object: "parse_value (Suc m) (''{}'' @ r) = Inr (JObj [], r)"
  by (simp add: skip_ws_Cons)

lemma parse_value_array:
  "\<not> is_ws c \<Longrightarrow> c \<noteq> CHR '']'' \<Longrightarrow>
     parse_value (Suc m) (CHR ''['' # c # s) = parse_elements m [] (c # s)"
  by (simp add: skip_ws_Cons)

lemma parse_value_object:
  "\<not> is_ws c \<Longrightarrow> c \<noteq> CHR ''}'' \<Longrightarrow>
     parse_value (Suc m) (CHR ''{'' # c # s) = parse_members m [] (c # s)"
  by (simp add: skip_ws_Cons)

lemma parse_elements_next:
  "parse_value m s = Inr (v, CHR '','' # r') \<Longrightarrow>
     parse_elements (Suc m) acc s = parse_elements m (acc @ [v]) r'"
  by (simp add: skip_ws_Cons)

lemma parse_elements_last:
  "parse_value m s = Inr (v, CHR '']'' # r') \<Longrightarrow>
     parse_elements (Suc m) acc s = Inr (JArr (acc @ [v]), r')"
  by (simp add: skip_ws_Cons)

lemma parse_members_next:
  "\<not> index_like k \<Longrightarrow> parse_value m s = Inr (v, CHR '','' # r') \<Longrightarrow>
     parse_members (Suc m) acc (quote k @ CHR '':'' # s) = parse_members m (put k v acc) r'"
  by (simp add: quote_def skip_ws_Cons parse_chars_quote)

lemma parse_members_last:
  "\<not> index_like k \<Longrightarrow> parse_value m s = Inr (v, CHR ''}'' # r') \<Longrightarrow>
     parse_members (Suc m) acc (quote k @ CHR '':'' # s) = Inr (JObj (put k v acc), r')"
  by (simp add: quote_def skip_ws_Cons parse_chars_quote)

text \<open>What a printed value starts with.\<close>

lemma stringify_head:
  "\<exists>c s. stringify v = c # s \<and> \<not> is_ws c \<and> c \<noteq> CHR '']'' \<and> c \<noteq> CHR ''}''"
  by (cases v) (auto simp: quote_def)

lemma stringify_elements_head:
  "xs \<noteq> [] \<Longrightarrow>
     \<exists>c s. stringify_elements xs = c # s \<and> \<not> is_ws c \<and> c \<noteq> CHR '']''"
proof (cases xs)
  case Nil
  then show "xs \<noteq> [] \<Longrightarrow> ?thesis" by simp
next
  case (Cons x ys)
  obtain c s where "stringify x = c # s" "\<not> is_ws c" "c \<noteq> CHR '']''"
    using stringify_head[of x] by blast
  with Cons show ?thesis by (cases ys) auto
qed

lemma stringify_members_head:
  "kvs \<noteq> [] \<Longrightarrow> \<exists>s. stringify_members kvs = CHR 0x22 # s"
proof (cases kvs)
  case Nil
  then show "kvs \<noteq> [] \<Longrightarrow> ?thesis" by simp
next
  case (Cons kv rest)
  then show ?thesis by (cases kv; cases rest) (auto simp: quote_def)
qed


lemma parse_stringify:
  "plain v \<Longrightarrow> length (stringify v) \<le> n \<Longrightarrow> parse_value n (stringify v @ r) = Inr (v, r)"
  "plain_elements xs \<Longrightarrow> xs \<noteq> [] \<Longrightarrow> Suc (length (stringify_elements xs)) \<le> n \<Longrightarrow>
     parse_elements n acc (stringify_elements xs @ CHR '']'' # r) = Inr (JArr (acc @ xs), r)"
  "plain_members kvs \<Longrightarrow> kvs \<noteq> [] \<Longrightarrow> distinct (map fst (seen @ kvs)) \<Longrightarrow>
     Suc (length (stringify_members kvs)) \<le> n \<Longrightarrow>
     parse_members n seen (stringify_members kvs @ CHR ''}'' # r) = Inr (JObj (seen @ kvs), r)"
proof (induction v and xs and kvs arbitrary: n r and n acc r and n seen r
       rule: stringify_stringify_elements_stringify_members.induct)
  case 1
  then obtain m where "n = Suc m" by (cases n) auto
  then show ?case using parse_value_null by simp
next
  case (2 b)
  then obtain m where "n = Suc m" by (cases n) (auto split: if_splits)
  then show ?case using parse_value_true parse_value_false by simp
next
  case (3 s)
  then obtain m where "n = Suc m" by (cases n) (auto simp: quote_def)
  then show ?case using parse_value_string by simp
next
  case (4 xs)
  then obtain m where n: "n = Suc m" by (cases n) auto
  show ?case
  proof (cases "xs = []")
    case True
    then show ?thesis using n parse_value_empty_array by simp
  next
    case False
    then obtain c s where h: "stringify_elements xs = c # s" "\<not> is_ws c" "c \<noteq> CHR '']''"
      using stringify_elements_head by blast
    have "parse_value n (stringify (JArr xs) @ r)
          = parse_elements m [] (stringify_elements xs @ CHR '']'' # r)"
      using h n parse_value_array[of c m "s @ CHR '']'' # r"] by simp
    also have "\<dots> = Inr (JArr ([] @ xs), r)"
      using "4.prems" False n by (intro "4.IH") simp_all
    finally show ?thesis by simp
  qed
next
  case (5 kvs)
  then obtain m where n: "n = Suc m" by (cases n) auto
  show ?case
  proof (cases "kvs = []")
    case True
    then show ?thesis using n parse_value_empty_object by simp
  next
    case False
    then obtain s where h: "stringify_members kvs = CHR 0x22 # s"
      using stringify_members_head by blast
    have "parse_value n (stringify (JObj kvs) @ r)
          = parse_members m [] (stringify_members kvs @ CHR ''}'' # r)"
      using h n parse_value_object[of "CHR 0x22" m "s @ CHR ''}'' # r"] by simp
    also have "\<dots> = Inr (JObj ([] @ kvs), r)"
      using "5.prems" False n by (intro "5.IH") simp_all
    finally show ?thesis by simp
  qed
next
  case 6
  then show ?case by simp
next
  case (7 x)
  then obtain m where n: "n = Suc m" by (cases n) auto
  have "parse_value m (stringify x @ CHR '']'' # r) = Inr (x, CHR '']'' # r)"
    using "7.prems" n by (intro "7.IH") simp_all
  then show ?case
    using n parse_elements_last by simp
next
  case (8 x y ys)
  then obtain m where n: "n = Suc m" by (cases n) auto
  let ?rest = "stringify_elements (y # ys) @ CHR '']'' # r"
  have "parse_value m (stringify x @ CHR '','' # ?rest) = Inr (x, CHR '','' # ?rest)"
    using "8.prems" n by (intro "8.IH"(1)) simp_all
  then have "parse_elements n acc (stringify_elements (x # y # ys) @ CHR '']'' # r)
             = parse_elements m (acc @ [x]) ?rest"
    using n parse_elements_next by simp
  also have "\<dots> = Inr (JArr ((acc @ [x]) @ y # ys), r)"
    using "8.prems" n by (intro "8.IH"(2)) simp_all
  finally show ?case by simp
next
  case 9
  then show ?case by simp
next
  case (10 k v)
  then obtain m where n: "n = Suc m" by (cases n) auto
  from "10.prems" have k: "\<not> index_like k" and fresh: "k \<notin> fst ` set seen"
    by auto
  have "parse_value m (stringify v @ CHR ''}'' # r) = Inr (v, CHR ''}'' # r)"
    using "10.prems" n by (intro "10.IH") simp_all
  then show ?case
    using n k parse_members_last[of k m "stringify v @ CHR ''}'' # r" v r seen]
    by (simp add: put_fresh[OF fresh])
next
  case (11 k v kv kvs)
  then obtain m where n: "n = Suc m" by (cases n) auto
  from "11.prems" have k: "\<not> index_like k" and fresh: "k \<notin> fst ` set seen"
    by auto
  let ?rest = "stringify_members (kv # kvs) @ CHR ''}'' # r"
  have "parse_value m (stringify v @ CHR '','' # ?rest) = Inr (v, CHR '','' # ?rest)"
    using "11.prems" n by (intro "11.IH"(1)) simp_all
  then have "parse_members n seen (stringify_members ((k, v) # kv # kvs) @ CHR ''}'' # r)
             = parse_members m (seen @ [(k, v)]) ?rest"
    using n k parse_members_next[of k m "stringify v @ CHR '','' # ?rest" v ?rest seen]
    by (simp add: put_fresh[OF fresh])
  also have "\<dots> = Inr (JObj ((seen @ [(k, v)]) @ kv # kvs), r)"
    using "11.prems" n by (intro "11.IH"(2)) simp_all
  finally show ?case by simp
qed

lemma JSON_parse_stringify: "plain v \<Longrightarrow> JSON_parse (stringify v) = Inr v"
  using parse_stringify(1)[of v "Suc (length (stringify v))" "[]"]
  by (simp add: JSON_parse_def skip_ws_def)

text \<open>
  Claim C7, as stated, fails in its second law on the key-value backend: a cursor with
  white space between its tokens is valid JSON and decodes to a key, but encoding that
  key gives the compact text, not the cursor that was decoded.
\<close>

theorem cursor_reencode_counterexample:
  "decode_cursor ''{\"id\": {\"S\": \"u1\"}}'' = Inr (JObj [(''id'', JObj [(''S'', JStr ''u1'')])])
   \<and> encode_cursor (Some [(''id'', JObj [(''S'', JStr ''u1'')])]) = Some ''{\"id\":{\"S\":\"u1\"}}''
   \<and> ''{\"id\":{\"S\":\"u1\"}}'' \<noteq> ''{\"id\": {\"S\": \"u1\"}}''"
  by code_simp

text \<open>
  Claim C7, amended. An absent native token encodes to no cursor. On the key-value
  backend, for every native token that is a plain object, decoding its cursor gives the
  token back, and a cursor that \<^verbatim>\<open>encode\<close> has produced is what decoding and encoding
  again produce. On the SQL-like backend the cursor given to \<^verbatim>\<open>findMany\<close> goes to the
  store as it is, and the continuation token of the store comes back as the next cursor.
\<close>

theorem cursor_round_trip:
  "encode_cursor None = None
   \<and> (plain (JObj token) \<longrightarrow>
        (\<exists>cursor. encode_cursor (Some token) = Some cursor
           \<and> decode_cursor cursor = Inr (JObj token)))
   \<and> (plain (JObj token) \<and> encode_cursor (Some token) = Some cursor \<longrightarrow>
        (\<exists>t. decode_cursor cursor = Inr (JObj t) \<and> encode_cursor (Some t) = Some cursor))
   \<and> (cosmos_findMany c args = Inr response \<longrightarrow>
        (\<exists>query r. fetchNext c query (nextCursor_arg args) (page_size (take_arg args)) = Inr r
           \<and> nextCursor response = continuationToken r))"
proof (intro conjI impI)
  show "encode_cursor None = None"
    by (simp add: encode_cursor_def)
next
  assume "plain (JObj token)"
  then show "\<exists>cursor. encode_cursor (Some token) = Some cursor
           \<and> decode_cursor cursor = Inr (JObj token)"
    using JSON_parse_stringify[of "JObj token"]
    by (simp add: encode_cursor_def decode_cursor_def)
next
  assume "plain (JObj token) \<and> encode_cursor (Some token) = Some cursor"
  then have "decode_cursor cursor = Inr (JObj token) \<and> encode_cursor (Some token) = Some cursor"
    using JSON_parse_stringify[of "JObj token"]
    by (auto simp: encode_cursor_def decode_cursor_def)
  then show "\<exists>t. decode_cursor cursor = Inr (JObj t) \<and> encode_cursor (Some t) = Some cursor"
    by blast
next
  assume "cosmos_findMany c args = Inr response"
  then show "\<exists>query r. fetchNext c query (nextCursor_arg args) (page_size (take_arg args)) = Inr r
           \<and> nextCursor response = continuationToken r"
    by (auto simp: cosmos_findMany_def split: if_splits sum.splits resources.splits) blast+
qed

theorem cursor_round_trip_witness:
  "plain (JObj [(''id'', JObj [(''S'', JStr ''u1'')]), (''createdAt'', JObj [(''N'', JStr ''17'')])])
   \<and> encode_cursor (Some [(''id'', JObj [(''S'', JStr ''u1'')]), (''createdAt'', JObj [(''N'', JStr ''17'')])])
       = Some ''{\"id\":{\"S\":\"u1\"},\"createdAt\":{\"N\":\"17\"}}''
   \<and> decode_cursor ''{\"id\":{\"S\":\"u1\"},\"createdAt\":{\"N\":\"17\"}}''
       = Inr (JObj [(''id'', JObj [(''S'', JStr ''u1'')]), (''createdAt'', JObj [(''N'', JStr ''17'')])])"
proof -
  let ?t = "[(''id'', JObj [(''S'', JStr ''u1'')]), (''createdAt'', JObj [(''N'', JStr ''17'')])]"
  have p: "plain (JObj ?t)"
    by (simp add: index_like_def is_digit_def)
  have e: "encode_cursor (Some ?t) = Some ''{\"id\":{\"S\":\"u1\"},\"createdAt\":{\"N\":\"17\"}}''"
    by code_simp
  from cursor_round_trip[of ?t _ c args response] p e
  have "decode_cursor ''{\"id\":{\"S\":\"u1\"},\"createdAt\":{\"N\":\"17\"}}'' = Inr (JObj ?t)"
    by auto
  with p e show ?thesis by simp
qed

end
